theory Spec2Isabelle
  imports Complex_Main "HOL-Library.Multiset"
begin

section \<open>The detector of \<^verbatim>\<open>log_sentinel.py\<close>\<close>

text \<open>
  The repository is one class, \<^verbatim>\<open>LogAnomalyDetector\<close>, around two objects of
  scikit-learn: a \<^verbatim>\<open>TfidfVectorizer\<close> and an \<^verbatim>\<open>IsolationForest\<close>. The class itself
  holds three attributes (\<^verbatim>\<open>vectorizer\<close>, \<^verbatim>\<open>model\<close>, \<^verbatim>\<open>is_trained\<close>) and two
  methods, \<^verbatim>\<open>train\<close> and \<^verbatim>\<open>predict\<close>.

  The code of scikit-learn is not part of the repository. The methods the class calls are
  therefore taken as a parameter, the record \<open>sklearn\<close> below: every method takes the
  object it is called on and returns the object afterwards together with its result, which
  is an exception or a value. Nothing is assumed about them in the definitions.

  A Python \<^verbatim>\<open>str\<close> is a \<open>string\<close>; the two characters outside ASCII that the
  source writes are given by their UTF-8 bytes. The calls of \<^verbatim>\<open>print\<close> are left out: they
  write to the console and change neither the object nor the result.
\<close>

subsection \<open>Exceptions\<close>

text \<open>A raised exception: the name of its class and its message.\<close>

datatype exn = Raise (exn_class: string) (exn_message: string)

text \<open>Line 62: \<^verbatim>\<open>raise Exception("Model error: The model must be trained before prediction.")\<close>.\<close>

definition NotTrained :: exn where
  "NotTrained = Raise ''Exception'' ''Model error: The model must be trained before prediction.''"

subsection \<open>The library, as a parameter\<close>

record ('v, 'm, 'x) sklearn =
  TfidfVectorizer :: "string \<Rightarrow> 'v"
  IsolationForest :: "real \<Rightarrow> int \<Rightarrow> 'm"
  fit_transform :: "'v \<Rightarrow> string list \<Rightarrow> 'v \<times> (exn + 'x)"
  transform :: "'v \<Rightarrow> string list \<Rightarrow> 'v \<times> (exn + 'x)"
  fit :: "'m \<Rightarrow> 'x \<Rightarrow> 'm \<times> (exn + unit)"
  model_predict :: "'m \<Rightarrow> 'x \<Rightarrow> 'm \<times> (exn + int list)"

subsection \<open>The data frame of the report\<close>

text \<open>
  \<^verbatim>\<open>pd.DataFrame({...})\<close> is given a dictionary from column names to lists. The frame is
  the list of its columns in the order of the dictionary; both columns of the source hold
  strings. pandas refuses columns of different lengths with a \<^verbatim>\<open>ValueError\<close>.
\<close>

type_synonym frame = "(string \<times> string list) list"

definition same_length :: "(string \<times> string list) list \<Rightarrow> bool" where
  "same_length cols = list_all (\<lambda>c. length (snd c) = length (snd (hd cols))) cols"

definition DataFrame :: "(string \<times> string list) list \<Rightarrow> exn + frame" where
  "DataFrame cols =
     (if same_length cols then Inr cols
      else Inl (Raise ''ValueError'' ''All arrays must be of the same length''))"

text \<open>The rows of a frame: row \<open>i\<close> holds the \<open>i\<close>-th entry of every column.\<close>

definition n_rows :: "frame \<Rightarrow> nat" where
  "n_rows df = (case df of [] \<Rightarrow> 0 | c # _ \<Rightarrow> length (snd c))"

definition row :: "frame \<Rightarrow> nat \<Rightarrow> (string \<times> string) list" where
  "row df i = map (\<lambda>c. (fst c, snd c ! i)) df"

definition rows :: "frame \<Rightarrow> (string \<times> string) list list" where
  "rows df = map (row df) [0..<n_rows df]"

text \<open>\<^verbatim>\<open>row['Log_Message']\<close>: the field of a row under a column name.\<close>

definition field :: "(string \<times> string) list \<Rightarrow> string \<Rightarrow> string option" where
  "field r name = map_of r name"

subsection \<open>The class\<close>

record ('v, 'm) LogAnomalyDetector =
  vectorizer :: 'v
  model :: 'm
  is_trained :: bool

text \<open>The two status strings of line 75, a red and a green circle before the word.\<close>

definition ANOMALY_status :: string where
  "ANOMALY_status = [CHR 0xF0, CHR 0x9F, CHR 0x94, CHR 0xB4] @ '' ANOMALY''"

definition Normal_status :: string where
  "Normal_status = [CHR 0xF0, CHR 0x9F, CHR 0x9F, CHR 0xA2] @ '' Normal''"

text \<open>\<^verbatim>\<open>__init__\<close> (lines 19 to 32).\<close>

definition init :: "('v, 'm, 'x) sklearn \<Rightarrow> real \<Rightarrow> ('v, 'm) LogAnomalyDetector" where
  "init lib contamination =
     \<lparr>vectorizer = TfidfVectorizer lib ''english'',
      model = IsolationForest lib contamination 42,
      is_trained = False\<rparr>"

text \<open>
  \<^verbatim>\<open>train\<close> (lines 34 to 49). An exception of the library leaves the method at once:
  the objects touched so far stay as the library left them and \<^verbatim>\<open>is_trained\<close> is not
  assigned.
\<close>

definition train ::
  "('v, 'm, 'x) sklearn \<Rightarrow> ('v, 'm) LogAnomalyDetector \<Rightarrow> string list
     \<Rightarrow> ('v, 'm) LogAnomalyDetector \<times> (exn + unit)" where
  "train lib self logs =
     (case fit_transform lib (vectorizer self) logs of
        (v, Inl e) \<Rightarrow> (self\<lparr>vectorizer := v\<rparr>, Inl e)
      | (v, Inr X) \<Rightarrow>
          (case fit lib (model self) X of
             (m, Inl e) \<Rightarrow> (self\<lparr>vectorizer := v, model := m\<rparr>, Inl e)
           | (m, Inr _) \<Rightarrow> (self\<lparr>vectorizer := v, model := m, is_trained := True\<rparr>, Inr ())))"

text \<open>\<^verbatim>\<open>predict\<close> (lines 51 to 78).\<close>

definition status_of :: "int \<Rightarrow> string" where
  "status_of p = (if p = - 1 then ANOMALY_status else Normal_status)"

definition predict ::
  "('v, 'm, 'x) sklearn \<Rightarrow> ('v, 'm) LogAnomalyDetector \<Rightarrow> string list
     \<Rightarrow> ('v, 'm) LogAnomalyDetector \<times> (exn + frame)" where
  "predict lib self new_logs =
     (if \<not> is_trained self then (self, Inl NotTrained)
      else
        (case transform lib (vectorizer self) new_logs of
           (v, Inl e) \<Rightarrow> (self\<lparr>vectorizer := v\<rparr>, Inl e)
         | (v, Inr X_new) \<Rightarrow>
             (case model_predict lib (model self) X_new of
                (m, Inl e) \<Rightarrow> (self\<lparr>vectorizer := v, model := m\<rparr>, Inl e)
              | (m, Inr predictions) \<Rightarrow>
                  (self\<lparr>vectorizer := v, model := m\<rparr>,
                   DataFrame [(''Log_Message'', new_logs),
                              (''Status'', map status_of predictions)]))))"

text \<open>
  The detectors on which \<^verbatim>\<open>train\<close> has never completed: a new one, one on which a call
  of \<^verbatim>\<open>train\<close> has raised, and one on which \<^verbatim>\<open>predict\<close> has been called.
\<close>

inductive never_trained ::
  "('v, 'm, 'x) sklearn \<Rightarrow> ('v, 'm) LogAnomalyDetector \<Rightarrow> bool"
  for lib :: "('v, 'm, 'x) sklearn" where
  fresh: "never_trained lib (init lib contamination)"
| train_raised:
    "never_trained lib self \<Longrightarrow> train lib self logs = (self', Inl e)
       \<Longrightarrow> never_trained lib self'"
| predicted:
    "never_trained lib self \<Longrightarrow> never_trained lib (fst (predict lib self new_logs))"

text \<open>
  A library is read-only when its \<^verbatim>\<open>transform\<close> and the forest's \<^verbatim>\<open>predict\<close>
  leave the object they are called on as it was.
\<close>

definition read_only :: "('v, 'm, 'x) sklearn \<Rightarrow> bool" where
  "read_only lib \<longleftrightarrow>
     (\<forall>v ls. fst (transform lib v ls) = v) \<and> (\<forall>m X. fst (model_predict lib m X) = m)"

section \<open>The engine the specification describes\<close>

text \<open>
  The vectorizer, the forest and the classifier of sections 4.1 to 4.3 of the specification
  stand for the code of scikit-learn, which the repository calls and does not contain. The
  definitions of this section are written from the specification.
\<close>

subsection \<open>Tokens\<close>

text \<open>
  Modelled from the spec: the tokenizer of \<^verbatim>\<open>TfidfVectorizer\<close> is missing from the
  repository. Section 4.1: "tokenize each line (case-fold, split on non-alphanumeric
  boundaries), drop tokens in a fixed stopword set". The stopword set is not listed in the
  specification and is a parameter.
\<close>

definition alnum :: "char \<Rightarrow> bool" where
  "alnum c \<longleftrightarrow> c \<in> set ''abcdefghijklmnopqrstuvwxyzABCDEFGHIJKLMNOPQRSTUVWXYZ0123456789''"

definition case_fold :: "char \<Rightarrow> char" where
  "case_fold c =
     (case map_of (zip ''ABCDEFGHIJKLMNOPQRSTUVWXYZ'' ''abcdefghijklmnopqrstuvwxyz'') c of
        None \<Rightarrow> c | Some l \<Rightarrow> l)"

fun split_alnum :: "string \<Rightarrow> string \<Rightarrow> string list" where
  "split_alnum cur [] = (if cur = [] then [] else [cur])"
| "split_alnum cur (c # cs) =
     (if alnum c then split_alnum (cur @ [c]) cs
      else (if cur = [] then [] else [cur]) @ split_alnum [] cs)"

definition tokenize :: "string list \<Rightarrow> string \<Rightarrow> string list" where
  "tokenize stop line = filter (\<lambda>t. t \<notin> set stop) (split_alnum [] (map case_fold line))"

subsection \<open>Vectorizer\<close>

text \<open>
  Modelled from the spec: the frozen state of \<^verbatim>\<open>TfidfVectorizer\<close> is missing from the
  repository. Section 3: the vocabulary gives every token a dense index (here the position
  in the list), the document frequencies give every index a count, and \<open>N\<close> is the size of
  the training corpus.
\<close>

record frozen =
  vocabulary :: "string list"
  document_frequencies :: "nat \<Rightarrow> nat"
  corpus_size :: nat

definition EmptyVocabulary :: exn where
  "EmptyVocabulary = Raise ''EmptyVocabulary'' []"

definition InsufficientData :: exn where
  "InsufficientData = Raise ''InsufficientData'' []"

text \<open>
  Modelled from the spec: \<^verbatim>\<open>TfidfVectorizer.fit\<close> is missing from the repository.
  Section 4.1: "Assign each distinct surviving token a vocabulary index in first-seen order.
  For each token, count the number of distinct lines (documents) in which it appears", and
  "Fails with EmptyVocabulary if, after stopword removal, no tokens remain across all
  lines."
\<close>

definition add_token :: "string \<Rightarrow> string list \<Rightarrow> string list" where
  "add_token t vocab = (if t \<in> set vocab then vocab else vocab @ [t])"

definition first_seen :: "string list \<Rightarrow> string list" where
  "first_seen toks = fold add_token toks []"

definition document_frequency :: "string list list \<Rightarrow> string \<Rightarrow> nat" where
  "document_frequency docs t = length (filter (\<lambda>d. t \<in> set d) docs)"

definition Vectorizer_fit :: "string list \<Rightarrow> string list \<Rightarrow> exn + frozen" where
  "Vectorizer_fit stop lines =
     (let docs = map (tokenize stop) lines;
          vocab = first_seen (concat docs)
      in if vocab = [] then Inl EmptyVocabulary
         else Inr \<lparr>vocabulary = vocab,
                   document_frequencies =
                     (\<lambda>i. if i < length vocab then document_frequency docs (vocab ! i) else 0),
                   corpus_size = length lines\<rparr>)"

text \<open>
  Modelled from the spec: \<^verbatim>\<open>TfidfVectorizer.transform\<close> is missing from the repository.
  Section 4.1: "compute raw term frequency per known token (unknown tokens are silently
  ignored, contributing no weight); weight = termFrequency x log((1 + N) / (1 +
  documentFrequency)) + 1 (smoothed IDF, strictly positive); normalize the resulting vector
  to unit Euclidean norm unless all weights are zero, in which case the vector is the zero
  vector." The smoothed inverse document frequency is the logarithm plus one, and the weight
  is the term frequency times it: a line without known tokens has to come out as the zero
  vector (section 7). A feature vector is the list of the weights of the indices
  \<open>0, ..., D - 1\<close>.
\<close>

definition idf :: "frozen \<Rightarrow> nat \<Rightarrow> real" where
  "idf M i = ln ((1 + real (corpus_size M)) / (1 + real (document_frequencies M i))) + 1"

definition term_frequency :: "string list \<Rightarrow> string \<Rightarrow> nat" where
  "term_frequency toks t = count_list toks t"

definition weight :: "frozen \<Rightarrow> string list \<Rightarrow> nat \<Rightarrow> real" where
  "weight M toks i = real (term_frequency toks (vocabulary M ! i)) * idf M i"

definition raw_vector :: "frozen \<Rightarrow> string list \<Rightarrow> real list" where
  "raw_vector M toks = map (weight M toks) [0..<length (vocabulary M)]"

definition euclidean_norm :: "real list \<Rightarrow> real" where
  "euclidean_norm v = sqrt (\<Sum>x\<leftarrow>v. x\<^sup>2)"

definition normalize :: "real list \<Rightarrow> real list" where
  "normalize v =
     (if list_all (\<lambda>x. x = 0) v then v else map (\<lambda>x. x / euclidean_norm v) v)"

definition feature_vector :: "frozen \<Rightarrow> string list \<Rightarrow> string \<Rightarrow> real list" where
  "feature_vector M stop line = normalize (raw_vector M (tokenize stop line))"

definition Vectorizer_transform :: "frozen \<Rightarrow> string list \<Rightarrow> string list \<Rightarrow> real list list" where
  "Vectorizer_transform M stop lines = map (feature_vector M stop) lines"

text \<open>
  Modelled from the spec: the weight of section 4.1 once more, written over the token and
  the tokenized training lines instead of the token's index, to compare two trainings whose
  vocabularies are ordered differently.
\<close>

definition token_weight :: "string list list \<Rightarrow> string list \<Rightarrow> string \<Rightarrow> real" where
  "token_weight docs toks t =
     real (count_list toks t) *
       (ln ((1 + real (length docs)) / (1 + real (document_frequency docs t))) + 1)"

subsection \<open>Classifier\<close>

text \<open>
  Modelled from the spec: the thresholding of \<^verbatim>\<open>IsolationForest.predict\<close> is missing
  from the repository. Section 4.3: "Compute the (1 - contaminationRate)-quantile of the score
  distribution as a decision threshold", and "if all scores are identical, no item exceeds
  the threshold (all Normal) - document this as expected boundary behavior". The quantile
  of the distribution of the given scores at \<open>p\<close> is the least score \<open>x\<close> such that the
  share of scores not above \<open>x\<close> reaches \<open>p\<close>: entry \<open>\<lceil>p n\<rceil>\<close> of the \<open>n\<close> sorted
  scores, counted from one. An item is an anomaly when its score exceeds the threshold; the
  sentence of 4.3 that also flags a score equal to the threshold contradicts the documented
  edge case, and the definition follows the edge case. The rate lies strictly between 0 and
  1 (section 4.3), which keeps the entry inside a non-empty list of scores; an empty list has
  no item to label, and the threshold is not read.
\<close>

datatype verdict = Normal | Anomaly

definition quantile :: "real \<Rightarrow> real list \<Rightarrow> real" where
  "quantile p scores = sort scores ! (nat \<lceil>p * real (length scores)\<rceil> - 1)"

definition label :: "real list \<Rightarrow> real \<Rightarrow> verdict list" where
  "label scores contaminationRate =
     map (\<lambda>s. if quantile (1 - contaminationRate) scores < s then Anomaly else Normal) scores"

definition anomalies :: "verdict list \<Rightarrow> nat" where
  "anomalies vs = length (filter (\<lambda>v. v = Anomaly) vs)"

subsection \<open>The engine as a library\<close>

text \<open>
  Modelled from the spec: the objects of scikit-learn and their methods are missing from the
  repository. Section 2: "Vectorizer.fit(trainingLines), vectors, Forest.fit(vectors) fixes
  the model; at inference, Vectorizer.transform(newLines), vectors, Forest.score(vectors),
  Classifier.label(scores)". Section 4.2: "if |vectors| < 2, fails with InsufficientData";
  section 6: forest size 100, subsample size 256 capped at the corpus size. Section 3: a
  transform or score before \<^verbatim>\<open>fit\<close> fails with NotTrained. The construction of the trees
  from the seed and the score of a vector against them are parameters, \<open>build\<close> and
  \<open>score\<close>; the stopword set named by \<^verbatim>\<open>stop_words='english'\<close> is the parameter
  \<open>english\<close>. The forest's \<^verbatim>\<open>predict\<close> answers \<open>-1\<close> for an anomaly and \<open>1\<close> for a
  normal item (line 69 of the source).
\<close>

record vectorizer_state =
  stop_words :: "string list"
  frozen_model :: "frozen option"

record 'f forest_state =
  contamination :: real
  random_state :: int
  trees :: "'f option"

definition verdict_int :: "verdict \<Rightarrow> int" where
  "verdict_int v = (case v of Anomaly \<Rightarrow> - 1 | Normal \<Rightarrow> 1)"

definition spec_sklearn ::
  "string list \<Rightarrow> (nat \<Rightarrow> nat \<Rightarrow> int \<Rightarrow> real list list \<Rightarrow> 'f) \<Rightarrow> ('f \<Rightarrow> real list \<Rightarrow> real)
     \<Rightarrow> (vectorizer_state, 'f forest_state, real list list) sklearn" where
  "spec_sklearn english build score =
     \<lparr>TfidfVectorizer =
        (\<lambda>name. \<lparr>stop_words = (if name = ''english'' then english else []),
                  frozen_model = None\<rparr>),
      IsolationForest = (\<lambda>c seed. \<lparr>contamination = c, random_state = seed, trees = None\<rparr>),
      fit_transform =
        (\<lambda>v lines. case Vectorizer_fit (stop_words v) lines of
           Inl e \<Rightarrow> (v, Inl e)
         | Inr M \<Rightarrow> (v\<lparr>frozen_model := Some M\<rparr>,
                     Inr (Vectorizer_transform M (stop_words v) lines))),
      transform =
        (\<lambda>v lines. case frozen_model v of
           None \<Rightarrow> (v, Inl NotTrained)
         | Some M \<Rightarrow> (v, Inr (Vectorizer_transform M (stop_words v) lines))),
      fit =
        (\<lambda>m X. if length X < 2 then (m, Inl InsufficientData)
               else (m\<lparr>trees := Some (build 100 (min 256 (length X)) (random_state m) X)\<rparr>,
                     Inr ())),
      model_predict =
        (\<lambda>m X. case trees m of
           None \<Rightarrow> (m, Inl NotTrained)
         | Some f \<Rightarrow> (m, Inr (map verdict_int (label (map (score f) X) (contamination m)))))\<rparr>"

subsection \<open>A small instance\<close>

text \<open>
  The concrete library of the examples below: three stopwords, and a forest that remembers
  the size of its training set and gives every vector the score \<open>1/2\<close>.
\<close>

definition demo_stop :: "string list" where
  "demo_stop = [''the'', ''to'', ''from'']"

definition demo_sklearn :: "(vectorizer_state, nat forest_state, real list list) sklearn" where
  "demo_sklearn = spec_sklearn demo_stop (\<lambda>T psi seed X. length X) (\<lambda>f v. 1 / 2)"

definition demo_logs :: "string list" where
  "demo_logs = [''200 OK: GET /home'', ''INFO: Cache refreshed'']"

definition demo_trained :: "(vectorizer_state, nat forest_state) LogAnomalyDetector" where
  "demo_trained = fst (train demo_sklearn (init demo_sklearn (1 / 10)) demo_logs)"

text \<open>
  The same library with the input check of scikit-learn: its forest refuses a matrix without
  rows with a \<^verbatim>\<open>ValueError\<close> (the message is shortened here), which is what
  \<^verbatim>\<open>IsolationForest.predict\<close> answers to the vectors of an empty list of lines.
\<close>

definition strict_sklearn :: "(vectorizer_state, nat forest_state, real list list) sklearn" where
  "strict_sklearn =
     demo_sklearn\<lparr>model_predict :=
       (\<lambda>m X. if X = [] then (m, Inl (Raise ''ValueError'' ''Found array with 0 sample(s)''))
              else model_predict demo_sklearn m X)\<rparr>"

definition strict_trained :: "(vectorizer_state, nat forest_state) LogAnomalyDetector" where
  "strict_trained = fst (train strict_sklearn (init strict_sklearn (1 / 10)) demo_logs)"

text \<open>A frozen vectorizer of two tokens, the first seen in two of three training lines.\<close>

definition demo_frozen :: frozen where
  "demo_frozen =
     \<lparr>vocabulary = [''disk'', ''full''],
      document_frequencies = (\<lambda>i. if i = 0 then 2 else 1),
      corpus_size = 3\<rparr>"

section \<open>Properties of the class\<close>

subsection \<open>The flag\<close>

lemma predict_untrained:
  "\<not> is_trained self \<Longrightarrow> predict lib self new_logs = (self, Inl NotTrained)"
  by (simp add: predict_def)

lemma train_raised_is_trained:
  "train lib self logs = (self', Inl e) \<Longrightarrow> is_trained self' = is_trained self"
  by (auto simp: train_def split: prod.splits sum.splits)

lemma train_completed_is_trained:
  "train lib self logs = (self', Inr u) \<Longrightarrow> is_trained self'"
  by (auto simp: train_def split: prod.splits sum.splits)

lemma never_trained_is_trained: "never_trained lib self \<Longrightarrow> \<not> is_trained self"
proof (induction rule: never_trained.induct)
  case (fresh contamination)
  show ?case by (simp add: init_def)
next
  case (train_raised self logs self' e)
  then show ?case by (simp add: train_raised_is_trained)
next
  case (predicted self new_logs)
  then show ?case by (simp add: predict_untrained)
qed

subsection \<open>The report\<close>

lemma same_length_two:
  "same_length [(a, xs), (b, ys)] \<longleftrightarrow> length ys = length xs"
  by (simp add: same_length_def)

lemma predict_frame:
  assumes "predict lib self new_logs = (self', Inr df)"
  shows "is_trained self \<and>
         (\<exists>v X m predictions.
            transform lib (vectorizer self) new_logs = (v, Inr X) \<and>
            model_predict lib (model self) X = (m, Inr predictions) \<and>
            length predictions = length new_logs \<and>
            df = [(''Log_Message'', new_logs), (''Status'', map status_of predictions)])"
  using assms
  by (auto simp: predict_def DataFrame_def same_length_two split: if_splits prod.splits sum.splits)

lemma predict_returns:
  assumes "is_trained self"
    and "transform lib (vectorizer self) new_logs = (v, Inr X)"
    and "model_predict lib (model self) X = (m, Inr predictions)"
    and "length predictions = length new_logs"
  shows "predict lib self new_logs =
           (self\<lparr>vectorizer := v, model := m\<rparr>,
            Inr [(''Log_Message'', new_logs), (''Status'', map status_of predictions)])"
  using assms by (simp add: predict_def DataFrame_def same_length_two)

lemma rows_two:
  assumes "length ys = length xs"
  shows "rows [(a, xs), (b, ys)] = map (\<lambda>(x, y). [(a, x), (b, y)]) (zip xs ys)"
  using assms by (intro nth_equalityI) (simp_all add: rows_def n_rows_def row_def)

lemma status_strings_differ: "ANOMALY_status \<noteq> Normal_status"
  by (simp add: ANOMALY_status_def Normal_status_def)

subsection \<open>The small instance, evaluated\<close>

lemmas demo_defs =
  demo_trained_def demo_logs_def demo_sklearn_def demo_stop_def spec_sklearn_def
  train_def init_def Vectorizer_fit_def Vectorizer_transform_def tokenize_def alnum_def
  case_fold_def first_seen_def add_token_def Let_def

lemma demo_trained_is_trained: "is_trained demo_trained"
  by (simp add: demo_defs)

lemma demo_predict:
  "snd (predict demo_sklearn demo_trained [''GET /home'', ''disk full'']) =
     Inr [(''Log_Message'', [''GET /home'', ''disk full'']),
          (''Status'', [Normal_status, Normal_status])]"
  by (simp add: predict_def demo_defs DataFrame_def same_length_def status_of_def label_def
      quantile_def verdict_int_def)

lemma demo_train_raises:
  "snd (train demo_sklearn (init demo_sklearn (1 / 10)) [''the'']) = Inl EmptyVocabulary"
  by (simp add: demo_defs)

lemma read_only_spec_sklearn: "read_only (spec_sklearn english build score)"
  by (simp add: read_only_def spec_sklearn_def split: option.splits)

subsection \<open>The guard of \<^verbatim>\<open>predict\<close>\<close>

text \<open>
  Claim C2. On a detector on which \<^verbatim>\<open>train\<close> has never completed (a new one, or one
  whose calls of \<^verbatim>\<open>train\<close> all raised, whatever was predicted in between),
  \<^verbatim>\<open>predict\<close> raises the exception of line 62 for every list of lines, returns no
  frame and leaves the detector as it was.
\<close>

theorem predict_before_train_raises:
  "never_trained lib self \<Longrightarrow> predict lib self new_logs = (self, Inl NotTrained)"
  by (rule predict_untrained) (rule never_trained_is_trained)

text \<open>
  The guard at work: training on a corpus of stopwords raises, and the next
  \<^verbatim>\<open>predict\<close> is refused.
\<close>

theorem predict_before_train_raises_witness:
  "never_trained demo_sklearn (fst (train demo_sklearn (init demo_sklearn (1 / 10)) [''the''])) \<and>
   predict demo_sklearn (fst (train demo_sklearn (init demo_sklearn (1 / 10)) [''the'']))
       [''disk full''] =
     (fst (train demo_sklearn (init demo_sklearn (1 / 10)) [''the'']), Inl NotTrained)"
proof -
  let ?t = "train demo_sklearn (init demo_sklearn (1 / 10)) [''the'']"
  have "?t = (fst ?t, Inl EmptyVocabulary)"
    using demo_train_raises by (simp add: prod_eq_iff)
  then have nt: "never_trained demo_sklearn (fst ?t)"
    by (rule never_trained.train_raised [OF never_trained.fresh])
  from nt predict_before_train_raises [OF nt, of "[''disk full'']"] show ?thesis by simp
qed

subsection \<open>What \<^verbatim>\<open>predict\<close> leaves behind\<close>

text \<open>
  Claim C9. \<^verbatim>\<open>predict\<close> assigns no attribute of the detector: with a library whose
  \<^verbatim>\<open>transform\<close> and \<^verbatim>\<open>predict\<close> leave their objects unchanged, the detector after a
  call of \<^verbatim>\<open>predict\<close> (vectorizer, forest and flag) equals the detector before it,
  whether the call returns a frame or raises.
\<close>

theorem predict_leaves_detector:
  "read_only lib \<Longrightarrow> fst (predict lib self new_logs) = self"
proof -
  assume ro: "read_only lib"
  have v: "fst (transform lib (vectorizer self) new_logs) = vectorizer self"
    using ro by (simp add: read_only_def)
  have m: "\<And>X. fst (model_predict lib (model self) X) = model self"
    using ro by (simp add: read_only_def)
  show ?thesis
  proof (cases "is_trained self")
    case False
    then show ?thesis by (simp add: predict_untrained)
  next
    case True
    obtain v' r where t: "transform lib (vectorizer self) new_logs = (v', r)"
      by (cases "transform lib (vectorizer self) new_logs")
    with v have v': "v' = vectorizer self" by simp
    show ?thesis
    proof (cases r)
      case (Inl e)
      with True t v' show ?thesis by (simp add: predict_def)
    next
      case (Inr X)
      obtain m' q where p: "model_predict lib (model self) X = (m', q)"
        by (cases "model_predict lib (model self) X")
      with m [of X] have m': "m' = model self" by simp
      from True t v' Inr p m' show ?thesis
        by (cases q) (simp_all add: predict_def)
    qed
  qed
qed

text \<open>The library of the specification is read-only, and the trained detector stays.\<close>

theorem predict_leaves_detector_witness:
  "read_only demo_sklearn \<and>
   fst (predict demo_sklearn demo_trained [''GET /home'', ''disk full'']) = demo_trained"
proof -
  have ro: "read_only demo_sklearn"
    unfolding demo_sklearn_def by (rule read_only_spec_sklearn)
  from ro predict_leaves_detector [OF ro] show ?thesis by simp
qed

subsection \<open>One row per line\<close>

text \<open>
  Claim C10, as amended. On a trained detector, every frame \<^verbatim>\<open>predict\<close> returns has
  exactly one row per input line, and the \<^verbatim>\<open>Log_Message\<close> field of row \<open>i\<close> is input
  line \<open>i\<close>; and \<^verbatim>\<open>predict\<close> returns a frame whenever the library's \<^verbatim>\<open>transform\<close>
  and \<^verbatim>\<open>predict\<close> succeed with one prediction per line.
\<close>

theorem predict_one_row_per_line:
  assumes "is_trained self"
  shows "(\<forall>self' df. predict lib self new_logs = (self', Inr df) \<longrightarrow>
            length (rows df) = length new_logs \<and>
            (\<forall>i<length new_logs. field (rows df ! i) ''Log_Message'' = Some (new_logs ! i))) \<and>
         (\<forall>v X m predictions.
            transform lib (vectorizer self) new_logs = (v, Inr X) \<longrightarrow>
            model_predict lib (model self) X = (m, Inr predictions) \<longrightarrow>
            length predictions = length new_logs \<longrightarrow>
            (\<exists>self' df. predict lib self new_logs = (self', Inr df)))"
proof (intro conjI allI impI)
  fix self' df
  assume p: "predict lib self new_logs = (self', Inr df)"
  from predict_frame [OF p] obtain predictions where
    len: "length predictions = length new_logs" and
    df: "df = [(''Log_Message'', new_logs), (''Status'', map status_of predictions)]"
    by blast
  have r: "rows df =
      map (\<lambda>(x, y). [(''Log_Message'', x), (''Status'', y)]) (zip new_logs (map status_of predictions))"
    unfolding df by (rule rows_two) (simp add: len)
  show "length (rows df) = length new_logs"
    by (simp add: r len)
  fix i
  assume "i < length new_logs"
  then show "field (rows df ! i) ''Log_Message'' = Some (new_logs ! i)"
    by (simp add: r len field_def)
next
  fix v X m predictions
  assume "transform lib (vectorizer self) new_logs = (v, Inr X)"
    and "model_predict lib (model self) X = (m, Inr predictions)"
    and "length predictions = length new_logs"
  with assms show "\<exists>self' df. predict lib self new_logs = (self', Inr df)"
    by (simp add: predict_returns)
qed

text \<open>Two lines in, two rows out, the second row carrying the second line.\<close>

theorem predict_one_row_per_line_witness:
  "is_trained demo_trained \<and>
   (\<exists>self'. predict demo_sklearn demo_trained [''GET /home'', ''disk full''] =
      (self', Inr [(''Log_Message'', [''GET /home'', ''disk full'']),
                   (''Status'', [Normal_status, Normal_status])])) \<and>
   length (rows [(''Log_Message'', [''GET /home'', ''disk full'']),
                 (''Status'', [Normal_status, Normal_status])]) = 2 \<and>
   field (rows [(''Log_Message'', [''GET /home'', ''disk full'']),
                (''Status'', [Normal_status, Normal_status])] ! 1) ''Log_Message'' =
     Some ''disk full''"
proof -
  let ?logs = "[''GET /home'', ''disk full'']"
  let ?df = "[(''Log_Message'', ?logs), (''Status'', [Normal_status, Normal_status])]"
  have p: "predict demo_sklearn demo_trained ?logs =
      (fst (predict demo_sklearn demo_trained ?logs), Inr ?df)"
    using demo_predict by (simp add: prod_eq_iff)
  from predict_one_row_per_line [OF demo_trained_is_trained, of demo_sklearn ?logs] p
  have "length (rows ?df) = length ?logs \<and>
        (\<forall>i<length ?logs. field (rows ?df ! i) ''Log_Message'' = Some (?logs ! i))"
    by blast
  then have "length (rows ?df) = 2 \<and> field (rows ?df ! 1) ''Log_Message'' = Some ''disk full''"
    by simp
  with p demo_trained_is_trained show ?thesis by blast
qed

text \<open>
  Claim C10 as it is written has \<^verbatim>\<open>predict\<close> return its rows for every trained detector
  and every list of lines. \<^verbatim>\<open>predict\<close> catches no exception of the library (lines 67
  and 70): with a forest that refuses an empty matrix, the trained detector raises on the
  empty list and returns no frame.
\<close>

theorem predict_one_row_per_line_counterexample:
  "is_trained strict_trained \<and>
   snd (predict strict_sklearn strict_trained []) =
     Inl (Raise ''ValueError'' ''Found array with 0 sample(s)'')"
  by (simp add: predict_def strict_trained_def strict_sklearn_def demo_defs)

subsection \<open>The rows of the report\<close>

lemma status_of_cases: "status_of p = ANOMALY_status \<or> status_of p = Normal_status"
  by (simp add: status_of_def)

lemma demo_transform:
  "transform demo_sklearn (vectorizer demo_trained) [''GET /home'', ''disk full''] =
     (vectorizer demo_trained,
      Inr (Vectorizer_transform (the (frozen_model (vectorizer demo_trained))) demo_stop
             [''GET /home'', ''disk full'']))"
  by (simp add: demo_defs)

lemma demo_model_predict:
  "model_predict demo_sklearn (model demo_trained) [a, b] = (model demo_trained, Inr [1, 1])"
  by (simp add: demo_defs label_def quantile_def verdict_int_def)

text \<open>
  Claim C1, as amended. On a trained detector, when the library's \<^verbatim>\<open>transform\<close> and
  \<^verbatim>\<open>predict\<close> succeed with one prediction per line, \<^verbatim>\<open>predict\<close> returns a frame
  whose rows are, line by line, the pair of the original line (\<^verbatim>\<open>Log_Message\<close>) and a
  status (\<^verbatim>\<open>Status\<close>) that is one of two different strings, anomaly for the prediction
  \<open>-1\<close> and normal otherwise. A row has no score.
\<close>

theorem predict_report:
  assumes "is_trained self"
    and "transform lib (vectorizer self) new_logs = (v, Inr X)"
    and "model_predict lib (model self) X = (m, Inr predictions)"
    and "length predictions = length new_logs"
  shows "(\<exists>df. snd (predict lib self new_logs) = Inr df \<and>
            rows df =
              map (\<lambda>(line, p). [(''Log_Message'', line), (''Status'', status_of p)])
                (zip new_logs predictions)) \<and>
         (\<forall>p \<in> set predictions. status_of p = ANOMALY_status \<or> status_of p = Normal_status) \<and>
         ANOMALY_status \<noteq> Normal_status"
proof -
  let ?df = "[(''Log_Message'', new_logs), (''Status'', map status_of predictions)]"
  have p: "snd (predict lib self new_logs) = Inr ?df"
    using assms by (simp add: predict_returns)
  have "rows ?df =
      map (\<lambda>(x, y). [(''Log_Message'', x), (''Status'', y)]) (zip new_logs (map status_of predictions))"
    by (rule rows_two) (simp add: assms(4))
  also have "\<dots> = map (\<lambda>(line, p). [(''Log_Message'', line), (''Status'', status_of p)])
                (zip new_logs predictions)"
    by (simp add: zip_map2 case_prod_unfold)
  finally have r: "rows ?df = map (\<lambda>(line, p). [(''Log_Message'', line), (''Status'', status_of p)])
                (zip new_logs predictions)" .
  from p r show ?thesis
    using status_of_cases status_strings_differ by blast
qed

text \<open>Two lines scanned by the trained detector of the small instance.\<close>

theorem predict_report_witness:
  "is_trained demo_trained \<and>
   (\<exists>df. snd (predict demo_sklearn demo_trained [''GET /home'', ''disk full'']) = Inr df \<and>
      rows df = [[(''Log_Message'', ''GET /home''), (''Status'', Normal_status)],
                 [(''Log_Message'', ''disk full''), (''Status'', Normal_status)]])"
proof -
  have l: "length [1, 1 :: int] = length [''GET /home'', ''disk full'']" by simp
  have t: "transform demo_sklearn (vectorizer demo_trained) [''GET /home'', ''disk full''] =
     (vectorizer demo_trained,
      Inr [feature_vector (the (frozen_model (vectorizer demo_trained))) demo_stop ''GET /home'',
           feature_vector (the (frozen_model (vectorizer demo_trained))) demo_stop ''disk full''])"
    using demo_transform by (simp add: Vectorizer_transform_def)
  from predict_report [OF demo_trained_is_trained t demo_model_predict l]
  have "\<exists>df. snd (predict demo_sklearn demo_trained [''GET /home'', ''disk full'']) = Inr df \<and>
      rows df = [[(''Log_Message'', ''GET /home''), (''Status'', status_of 1)],
                 [(''Log_Message'', ''disk full''), (''Status'', status_of 1)]]"
    by simp
  then show ?thesis
    using demo_trained_is_trained by (simp add: status_of_def)
qed

text \<open>
  Claim C1 as it is written asks for a triple with a continuous score in each row. The rows
  returned for two lines have two fields, the message and the status: the source calls the
  forest's \<^verbatim>\<open>predict\<close> only (line 70) and builds the frame from two columns (lines 73
  to 76).
\<close>

theorem predict_triple_counterexample:
  "is_trained demo_trained \<and>
   snd (predict demo_sklearn demo_trained [''GET /home'', ''disk full'']) =
     Inr [(''Log_Message'', [''GET /home'', ''disk full'']),
          (''Status'', [Normal_status, Normal_status])] \<and>
   rows [(''Log_Message'', [''GET /home'', ''disk full'']),
         (''Status'', [Normal_status, Normal_status])] =
     [[(''Log_Message'', ''GET /home''), (''Status'', Normal_status)],
      [(''Log_Message'', ''disk full''), (''Status'', Normal_status)]] \<and>
   length [(''Log_Message'', ''GET /home''), (''Status'', Normal_status)] \<noteq> 3"
  using demo_trained_is_trained demo_predict by (simp add: rows_two)

section \<open>Properties of the engine of the specification\<close>

subsection \<open>The threshold\<close>

lemma quantile_index_less:
  assumes "0 < n" and "p \<le> 1"
  shows "nat \<lceil>p * real n\<rceil> - 1 < n"
proof -
  have "p * real n \<le> real n"
    using assms by (simp add: mult_left_le_one_le mult_le_cancel_right1)
  then have "\<lceil>p * real n\<rceil> \<le> int n"
    by (simp add: ceiling_le_iff)
  then have "nat \<lceil>p * real n\<rceil> \<le> n" by linarith
  with assms(1) show ?thesis by linarith
qed

lemma quantile_index_mono:
  assumes "p \<le> q"
  shows "nat \<lceil>p * real n\<rceil> - 1 \<le> nat \<lceil>q * real n\<rceil> - 1"
proof -
  have "p * real n \<le> q * real n"
    using assms by (simp add: mult_right_mono)
  then have "\<lceil>p * real n\<rceil> \<le> \<lceil>q * real n\<rceil>"
    by (rule ceiling_mono)
  then show ?thesis by linarith
qed

lemma quantile_mono:
  assumes "p \<le> q" and "q \<le> 1"
  shows "quantile p scores \<le> quantile q scores"
proof (cases "scores = []")
  case True
  then show ?thesis by (simp add: quantile_def)
next
  case False
  then have "nat \<lceil>q * real (length scores)\<rceil> - 1 < length (sort scores)"
    using quantile_index_less [of "length scores" q] assms(2) by simp
  then show ?thesis
    unfolding quantile_def
    by (intro sorted_nth_mono quantile_index_mono assms(1)) simp_all
qed

lemma quantile_in_scores:
  assumes "scores \<noteq> []" and "p \<le> 1"
  shows "quantile p scores \<in> set scores"
proof -
  have "nat \<lceil>p * real (length scores)\<rceil> - 1 < length (sort scores)"
    using quantile_index_less [of "length scores" p] assms by simp
  then have "sort scores ! (nat \<lceil>p * real (length scores)\<rceil> - 1) \<in> set (sort scores)"
    by (rule nth_mem)
  then show ?thesis by (simp add: quantile_def)
qed

lemma length_filter_mono:
  "(\<And>x. x \<in> set xs \<Longrightarrow> P x \<Longrightarrow> Q x) \<Longrightarrow> length (filter P xs) \<le> length (filter Q xs)"
  by (induction xs) auto

lemma anomalies_label:
  "anomalies (label scores r) = length (filter (\<lambda>s. quantile (1 - r) scores < s) scores)"
proof -
  have "filter (\<lambda>v. v = Anomaly) (map (\<lambda>s. if t < s then Anomaly else Normal) xs) =
        map (\<lambda>s. Anomaly) (filter (\<lambda>s. t < s) xs)" for t :: real and xs
    by (induction xs) auto
  then show ?thesis by (simp add: anomalies_def label_def)
qed

lemma demo_quantiles:
  "quantile (9 / 10) [1 / 2, 9 / 10, 3 / 5] = 9 / 10"
  "quantile (1 / 2) [1 / 2, 9 / 10, 3 / 5] = 3 / 5"
  by (simp_all add: quantile_def)

text \<open>
  Claim C7. With the scores fixed and two contamination rates \<open>r1 \<le> r2\<close> in \<open>(0, 1)\<close>,
  the classifier flags at least as many items as anomalies under \<open>r2\<close> as under \<open>r1\<close>.
\<close>

theorem label_monotone:
  assumes "0 < r1" and "r1 \<le> r2" and "r2 < 1"
  shows "anomalies (label scores r1) \<le> anomalies (label scores r2)"
proof -
  have "quantile (1 - r2) scores \<le> quantile (1 - r1) scores"
    using assms by (intro quantile_mono) simp_all
  then show ?thesis
    unfolding anomalies_label by (intro length_filter_mono) simp
qed

text \<open>Three scores: nothing is flagged at the rate \<open>1/10\<close>, one item at \<open>1/2\<close>.\<close>

theorem label_monotone_witness:
  "(0::real) < 1 / 10 \<and> (1::real) / 10 \<le> 1 / 2 \<and> (1::real) / 2 < 1 \<and>
   anomalies (label [1 / 2, 9 / 10, 3 / 5] (1 / 10)) \<le> anomalies (label [1 / 2, 9 / 10, 3 / 5] (1 / 2)) \<and>
   label [1 / 2, 9 / 10, 3 / 5] (1 / 10) = [Normal, Normal, Normal] \<and>
   label [1 / 2, 9 / 10, 3 / 5] (1 / 2) = [Normal, Anomaly, Normal]"
proof -
  have h: "(0::real) < 1 / 10" "(1::real) / 10 \<le> 1 / 2" "(1::real) / 2 < 1" by simp_all
  from label_monotone [OF h, of "[1 / 2, 9 / 10, 3 / 5]"] h show ?thesis
    by (simp add: label_def demo_quantiles)
qed

text \<open>
  Claim C5, as amended. For a contamination rate in \<open>(0, 1)\<close> the classifier flags as
  anomalies exactly the scores strictly above the \<open>(1 - rate)\<close>-quantile of the scores;
  in particular, when all scores are identical, no item exceeds the threshold and every
  item is labelled normal.
\<close>

theorem label_threshold:
  assumes "0 < r" and "r < 1"
  shows "(\<forall>i<length scores.
            label scores r ! i = Anomaly \<longleftrightarrow> quantile (1 - r) scores < scores ! i) \<and>
         ((\<forall>s\<in>set scores. \<forall>t\<in>set scores. s = t) \<longrightarrow>
            (\<forall>i<length scores. label scores r ! i = Normal))"
proof (intro conjI allI impI)
  fix i assume "i < length scores"
  then show "label scores r ! i = Anomaly \<longleftrightarrow> quantile (1 - r) scores < scores ! i"
    by (simp add: label_def)
next
  fix i
  assume same: "\<forall>s\<in>set scores. \<forall>t\<in>set scores. s = t" and i: "i < length scores"
  then have "scores \<noteq> []" by auto
  then have "quantile (1 - r) scores \<in> set scores"
    using assms by (intro quantile_in_scores) simp_all
  with same i have "quantile (1 - r) scores = scores ! i" by simp
  with i show "label scores r ! i = Normal"
    by (simp add: label_def)
qed

text \<open>Two identical scores are both normal; of three different scores the largest is flagged.\<close>

theorem label_threshold_witness:
  "(0::real) < 1 / 2 \<and> (1::real) / 2 < 1 \<and>
   label [3 / 5, 3 / 5] (1 / 2) ! 0 = Normal \<and> label [3 / 5, 3 / 5] (1 / 2) ! 1 = Normal \<and>
   label [1 / 2, 9 / 10, 3 / 5] (1 / 2) ! 1 = Anomaly \<and>
   quantile (1 - 1 / 2) [1 / 2, 9 / 10, 3 / 5] < [1 / 2, 9 / 10, 3 / 5] ! 1"
proof -
  have h: "(0::real) < 1 / 2" "(1::real) / 2 < 1" by simp_all
  have s: "\<forall>s\<in>set [3 / 5, 3 / 5 :: real]. \<forall>t\<in>set [3 / 5, 3 / 5]. s = t" by simp
  have q: "quantile (1 - 1 / 2) [1 / 2, 9 / 10, 3 / 5] < [1 / 2, 9 / 10, 3 / 5] ! 1"
    by (simp add: demo_quantiles)
  from label_threshold [OF h, of "[3 / 5, 3 / 5]"] s
  have a: "label [3 / 5, 3 / 5] (1 / 2) ! 0 = Normal \<and> label [3 / 5, 3 / 5] (1 / 2) ! 1 = Normal"
    by simp
  from label_threshold [OF h, of "[1 / 2, 9 / 10, 3 / 5]"] q
  have b: "label [1 / 2, 9 / 10, 3 / 5] (1 / 2) ! 1 = Anomaly"
    by simp
  from a b q h show ?thesis by simp
qed

text \<open>
  Claim C5 as it is written flags every score at or above the quantile and, in the same
  sentence, leaves identical scores normal. Identical scores all sit at the quantile: the
  first of two scores \<open>3/5\<close> is at the threshold and is labelled normal.
\<close>

theorem label_at_threshold_counterexample:
  "quantile (1 - 1 / 2) [3 / 5, 3 / 5] \<le> [3 / 5, 3 / 5] ! 0 \<and>
   label [3 / 5, 3 / 5] (1 / 2) ! 0 = Normal"
  by (simp add: label_def quantile_def)

subsection \<open>An empty vocabulary\<close>

lemma first_seen_Nil: "first_seen [] = []"
  by (simp add: first_seen_def)

lemma Vectorizer_fit_no_tokens:
  assumes "\<forall>line\<in>set lines. tokenize stop line = []"
  shows "Vectorizer_fit stop lines = Inl EmptyVocabulary"
proof -
  have none: "concat (map (tokenize stop) lines) = []"
    using assms by simp
  show ?thesis
    unfolding Vectorizer_fit_def Let_def none first_seen_Nil by simp
qed

text \<open>
  Claim C6. When no token of any training line survives the stopword removal, \<^verbatim>\<open>train\<close>
  fails with EmptyVocabulary: the vectorizer's failure leaves \<^verbatim>\<open>train\<close> at line 44,
  before the forest is fitted and before \<^verbatim>\<open>is_trained\<close> is set, and the detector is
  as it was.
\<close>

theorem train_empty_vocabulary:
  assumes "\<forall>line\<in>set logs. tokenize (stop_words (vectorizer self)) line = []"
  shows "train (spec_sklearn english build score) self logs = (self, Inl EmptyVocabulary)"
  using Vectorizer_fit_no_tokens [OF assms]
  by (simp add: train_def spec_sklearn_def)

text \<open>A corpus of stopwords and punctuation.\<close>

theorem train_empty_vocabulary_witness:
  "tokenize (stop_words (vectorizer (init demo_sklearn (1 / 10)))) ''The'' = [] \<and>
   tokenize (stop_words (vectorizer (init demo_sklearn (1 / 10)))) ''to the'' = [] \<and>
   tokenize (stop_words (vectorizer (init demo_sklearn (1 / 10)))) ''...'' = [] \<and>
   train demo_sklearn (init demo_sklearn (1 / 10)) [''The'', ''to the'', ''...''] =
     (init demo_sklearn (1 / 10), Inl EmptyVocabulary)"
proof -
  have t: "tokenize (stop_words (vectorizer (init demo_sklearn (1 / 10)))) ''The'' = []"
    "tokenize (stop_words (vectorizer (init demo_sklearn (1 / 10)))) ''to the'' = []"
    "tokenize (stop_words (vectorizer (init demo_sklearn (1 / 10)))) ''...'' = []"
    by (simp_all add: init_def demo_sklearn_def spec_sklearn_def demo_stop_def tokenize_def
        alnum_def case_fold_def)
  then have h: "\<forall>line\<in>set [''The'', ''to the'', ''...''].
      tokenize (stop_words (vectorizer (init demo_sklearn (1 / 10)))) line = []"
    by simp
  from train_empty_vocabulary [OF h, of demo_stop "\<lambda>T psi seed X. length X" "\<lambda>f v. 1 / 2"]
  have "train demo_sklearn (init demo_sklearn (1 / 10)) [''The'', ''to the'', ''...''] =
     (init demo_sklearn (1 / 10), Inl EmptyVocabulary)"
    unfolding demo_sklearn_def .
  with t show ?thesis by blast
qed

subsection \<open>The weights of a line\<close>

lemma length_feature_vector: "length (feature_vector M stop line) = length (vocabulary M)"
  by (simp add: feature_vector_def normalize_def raw_vector_def)

lemma count_list_filter: "P t \<Longrightarrow> count_list (filter P toks) t = count_list toks t"
  by (induction toks) auto

lemma raw_vector_known:
  "raw_vector M (filter (\<lambda>t. t \<in> set (vocabulary M)) toks) = raw_vector M toks"
  by (simp add: raw_vector_def weight_def term_frequency_def count_list_filter)

lemma raw_vector_nth:
  "i < length (vocabulary M) \<Longrightarrow>
   raw_vector M toks ! i =
     real (count_list toks (vocabulary M ! i)) *
       (ln ((1 + real (corpus_size M)) / (1 + real (document_frequencies M i))) + 1)"
  by (simp add: raw_vector_def weight_def term_frequency_def idf_def)

lemma sum_squares_nonneg: "0 \<le> (\<Sum>x\<leftarrow>v. x\<^sup>2)" for v :: "real list"
  by (induction v) simp_all

lemma sum_squares_pos:
  fixes v :: "real list"
  assumes "\<not> list_all (\<lambda>x. x = 0) v"
  shows "0 < (\<Sum>x\<leftarrow>v. x\<^sup>2)"
  using assms
proof (induction v)
  case Nil
  then show ?case by simp
next
  case (Cons a v)
  show ?case
  proof (cases "a = 0")
    case True
    with Cons show ?thesis by simp
  next
    case False
    then have "0 < a\<^sup>2" by simp
    with sum_squares_nonneg [of v] show ?thesis by (simp add: add_pos_nonneg)
  qed
qed

lemma sum_squares_scaled:
  "(\<Sum>x\<leftarrow>v. (x / c)\<^sup>2) = (\<Sum>x\<leftarrow>v. x\<^sup>2) / c\<^sup>2" for v :: "real list"
  by (induction v) (simp_all add: power_divide add_divide_distrib)

lemma normalize_zero:
  "list_all (\<lambda>x. x = 0) v \<Longrightarrow> normalize v = replicate (length v) 0"
  by (simp add: normalize_def list_all_iff replicate_length_same)

lemma normalize_unit:
  assumes "\<not> list_all (\<lambda>x. x = 0) v"
  shows "(\<Sum>x\<leftarrow>normalize v. x\<^sup>2) = 1"
proof -
  have pos: "0 < (\<Sum>x\<leftarrow>v. x\<^sup>2)" by (rule sum_squares_pos [OF assms])
  have "(\<Sum>x\<leftarrow>normalize v. x\<^sup>2) = (\<Sum>x\<leftarrow>v. (x / euclidean_norm v)\<^sup>2)"
    using assms by (simp add: normalize_def comp_def)
  also have "\<dots> = (\<Sum>x\<leftarrow>v. x\<^sup>2) / (euclidean_norm v)\<^sup>2"
    by (rule sum_squares_scaled)
  also have "(euclidean_norm v)\<^sup>2 = (\<Sum>x\<leftarrow>v. x\<^sup>2)"
    using pos by (simp add: euclidean_norm_def)
  finally show ?thesis using pos by simp
qed

lemma euclidean_norm_normalize:
  assumes "\<not> list_all (\<lambda>x. x = 0) v"
  shows "euclidean_norm (normalize v) = 1"
  by (simp add: euclidean_norm_def normalize_unit [OF assms])

lemma demo_tokens:
  "tokenize demo_stop ''Disk error: the DISK'' = [''disk'', ''error'', ''disk'']"
  "tokenize demo_stop ''CPU spike'' = [''cpu'', ''spike'']"
  by (simp_all add: tokenize_def demo_stop_def alnum_def case_fold_def)

lemma upt_two: "[0..<2] = [0, Suc 0]"
  by (simp add: upt_rec numeral_2_eq_2)

lemma demo_raw_vectors:
  "raw_vector demo_frozen [''disk'', ''error'', ''disk''] = [2 * (ln (4 / 3) + 1), 0]"
  "raw_vector demo_frozen [''cpu'', ''spike''] = [0, 0]"
  by (simp_all add: raw_vector_def demo_frozen_def weight_def idf_def term_frequency_def upt_two)

lemma demo_weight_pos: "(0::real) < 2 * (ln (4 / 3) + 1)"
proof -
  have "(0::real) < ln (4 / 3)" by simp
  then have "(0::real) < ln (4 / 3) + 1" by (rule add_pos_pos) simp
  then show ?thesis by simp
qed

text \<open>
  Claim C3, as amended. For every frozen model and every line, the vector of the line has
  one entry per vocabulary index; tokens outside the vocabulary change nothing; the weight of
  index \<open>i\<close> before normalisation is the term frequency of token \<open>i\<close> in the line times
  the sum \<open>ln ((1 + N) / (1 + df i)) + 1\<close>; when all these weights are zero the vector is
  the zero vector, and otherwise it is the weights divided by their Euclidean norm and has
  Euclidean norm one.
\<close>

theorem transform_weights:
  "length (feature_vector M stop line) = length (vocabulary M) \<and>
   raw_vector M (tokenize stop line) =
     raw_vector M (filter (\<lambda>t. t \<in> set (vocabulary M)) (tokenize stop line)) \<and>
   (\<forall>i<length (vocabulary M).
      raw_vector M (tokenize stop line) ! i =
        real (count_list (tokenize stop line) (vocabulary M ! i)) *
          (ln ((1 + real (corpus_size M)) / (1 + real (document_frequencies M i))) + 1)) \<and>
   ((\<forall>i<length (vocabulary M). raw_vector M (tokenize stop line) ! i = 0) \<longrightarrow>
      feature_vector M stop line = replicate (length (vocabulary M)) 0) \<and>
   (\<not> (\<forall>i<length (vocabulary M). raw_vector M (tokenize stop line) ! i = 0) \<longrightarrow>
      euclidean_norm (feature_vector M stop line) = 1 \<and>
      (\<forall>i<length (vocabulary M).
         feature_vector M stop line ! i =
           raw_vector M (tokenize stop line) ! i / euclidean_norm (raw_vector M (tokenize stop line))))"
proof -
  let ?raw = "raw_vector M (tokenize stop line)"
  have len: "length ?raw = length (vocabulary M)"
    by (simp add: raw_vector_def)
  have all0: "list_all (\<lambda>x. x = 0) ?raw \<longleftrightarrow> (\<forall>i<length (vocabulary M). ?raw ! i = 0)"
    using len by (simp add: list_all_length)
  have z: "(\<forall>i<length (vocabulary M). ?raw ! i = 0) \<longrightarrow>
      feature_vector M stop line = replicate (length (vocabulary M)) 0"
    using normalize_zero [of ?raw] all0 len by (simp add: feature_vector_def)
  have u: "\<not> (\<forall>i<length (vocabulary M). ?raw ! i = 0) \<longrightarrow>
      euclidean_norm (feature_vector M stop line) = 1 \<and>
      (\<forall>i<length (vocabulary M). feature_vector M stop line ! i = ?raw ! i / euclidean_norm ?raw)"
  proof
    assume "\<not> (\<forall>i<length (vocabulary M). ?raw ! i = 0)"
    then have n: "\<not> list_all (\<lambda>x. x = 0) ?raw" using all0 by simp
    have "euclidean_norm (feature_vector M stop line) = 1"
      unfolding feature_vector_def by (rule euclidean_norm_normalize [OF n])
    moreover have "\<forall>i<length (vocabulary M). feature_vector M stop line ! i = ?raw ! i / euclidean_norm ?raw"
      using n len by (simp add: feature_vector_def normalize_def)
    ultimately show "euclidean_norm (feature_vector M stop line) = 1 \<and>
      (\<forall>i<length (vocabulary M). feature_vector M stop line ! i = ?raw ! i / euclidean_norm ?raw)"
      by simp
  qed
  from length_feature_vector raw_vector_known [symmetric] raw_vector_nth z u
  show ?thesis by blast
qed

text \<open>
  A line with a known token twice and an unknown token, and a line of unknown tokens only.
\<close>

theorem transform_weights_witness:
  "raw_vector demo_frozen (tokenize demo_stop ''Disk error: the DISK'') =
     [2 * (ln (4 / 3) + 1), 0] \<and>
   (0::real) < 2 * (ln (4 / 3) + 1) \<and>
   euclidean_norm (feature_vector demo_frozen demo_stop ''Disk error: the DISK'') = 1 \<and>
   feature_vector demo_frozen demo_stop ''Disk error: the DISK'' ! 0 =
     2 * (ln (4 / 3) + 1) / euclidean_norm [2 * (ln (4 / 3) + 1), 0] \<and>
   raw_vector demo_frozen (tokenize demo_stop ''CPU spike'') = [0, 0] \<and>
   feature_vector demo_frozen demo_stop ''CPU spike'' = [0, 0]"
proof -
  let ?v = "vocabulary demo_frozen"
  have l: "length ?v = 2" by (simp add: demo_frozen_def)
  have r0: "raw_vector demo_frozen (tokenize demo_stop ''Disk error: the DISK'') =
      [2 * (ln (4 / 3) + 1), 0]"
    by (simp only: demo_tokens demo_raw_vectors)
  have r1: "raw_vector demo_frozen (tokenize demo_stop ''CPU spike'') = [0, 0]"
    by (simp only: demo_tokens demo_raw_vectors)
  have nz: "\<not> (\<forall>i<length ?v.
        raw_vector demo_frozen (tokenize demo_stop ''Disk error: the DISK'') ! i = 0)"
  proof
    assume "\<forall>i<length ?v.
        raw_vector demo_frozen (tokenize demo_stop ''Disk error: the DISK'') ! i = 0"
    then have "raw_vector demo_frozen (tokenize demo_stop ''Disk error: the DISK'') ! 0 = 0"
      using l by simp
    with demo_weight_pos show False
      by (simp add: r0)
  qed
  have z: "\<forall>i<length ?v. raw_vector demo_frozen (tokenize demo_stop ''CPU spike'') ! i = 0"
    by (simp add: l r1 less_Suc_eq numeral_2_eq_2)
  from transform_weights [of demo_frozen demo_stop "''Disk error: the DISK''"] nz
  have u: "euclidean_norm (feature_vector demo_frozen demo_stop ''Disk error: the DISK'') = 1"
    and e: "\<forall>i<length ?v. feature_vector demo_frozen demo_stop ''Disk error: the DISK'' ! i =
        raw_vector demo_frozen (tokenize demo_stop ''Disk error: the DISK'') ! i /
          euclidean_norm (raw_vector demo_frozen (tokenize demo_stop ''Disk error: the DISK''))"
    by blast+
  have "0 < length ?v" by (simp add: l)
  with e have "feature_vector demo_frozen demo_stop ''Disk error: the DISK'' ! 0 =
      raw_vector demo_frozen (tokenize demo_stop ''Disk error: the DISK'') ! 0 /
        euclidean_norm (raw_vector demo_frozen (tokenize demo_stop ''Disk error: the DISK''))"
    by blast
  then have a: "feature_vector demo_frozen demo_stop ''Disk error: the DISK'' ! 0 =
        2 * (ln (4 / 3) + 1) / euclidean_norm [2 * (ln (4 / 3) + 1), 0]"
    by (simp only: r0 nth_Cons_0)
  from transform_weights [of demo_frozen demo_stop "''CPU spike''"] z
  have "feature_vector demo_frozen demo_stop ''CPU spike'' = replicate (length ?v) 0"
    by blast
  then have b: "feature_vector demo_frozen demo_stop ''CPU spike'' = [0, 0]"
    by (simp add: l numeral_2_eq_2)
  from r0 demo_weight_pos u a r1 b show ?thesis by blast
qed

text \<open>
  Claim C3 as it is written gives a known token the weight
  \<open>termFrequency * ln ((1 + N) / (1 + df)) + 1\<close>, the one added after the product. For a
  token that the line holds twice the two readings differ: the weight is
  \<open>2 * (ln (4 / 3) + 1)\<close>, the formula of the claim gives \<open>2 * ln (4 / 3) + 1\<close>.
\<close>

theorem transform_weights_counterexample:
  "raw_vector demo_frozen (tokenize demo_stop ''Disk error: the DISK'') ! 0 \<noteq>
     real (count_list (tokenize demo_stop ''Disk error: the DISK'') (vocabulary demo_frozen ! 0)) *
       ln ((1 + real (corpus_size demo_frozen)) / (1 + real (document_frequencies demo_frozen 0)))
     + 1"
proof -
  have w: "raw_vector demo_frozen (tokenize demo_stop ''Disk error: the DISK'') ! 0 =
      2 * (ln (4 / 3) + 1)"
    by (simp only: demo_tokens demo_raw_vectors nth_Cons_0)
  have c: "real (count_list (tokenize demo_stop ''Disk error: the DISK'') (vocabulary demo_frozen ! 0)) *
       ln ((1 + real (corpus_size demo_frozen)) / (1 + real (document_frequencies demo_frozen 0)))
     + 1 = 2 * ln (4 / 3) + 1"
    by (simp add: demo_tokens demo_frozen_def)
  show ?thesis
    unfolding w c by simp
qed

subsection \<open>The order of the training lines\<close>

text \<open>
  The vocabulary lists every token once, in first-seen order; reordering the training lines
  reorders the vocabulary and changes neither the document frequencies nor the corpus size.
  So fitting fails on a corpus exactly when it fails on a reordering of it, and the vector of
  a fixed line pairs every token with the same weight under both trainings, though at another
  index. Nothing is said here about the forest built from the vectors.
\<close>

lemma fold_add_token:
  "set (fold add_token toks acc) = set toks \<union> set acc \<and>
   (distinct acc \<longrightarrow> distinct (fold add_token toks acc))"
  by (induction toks arbitrary: acc) (auto simp: add_token_def)

lemma set_first_seen: "set (first_seen toks) = set toks"
  by (simp add: first_seen_def fold_add_token)

lemma distinct_first_seen: "distinct (first_seen toks)"
  by (simp add: first_seen_def fold_add_token)

lemma document_frequency_mset:
  "document_frequency docs t = size (filter_mset (\<lambda>d. t \<in> set d) (mset docs))"
  by (simp add: document_frequency_def flip: mset_filter)

lemma first_seen_permuted:
  assumes "mset docs' = mset docs"
  shows "mset (first_seen (concat docs')) = mset (first_seen (concat docs))"
proof -
  have "set docs' = set docs"
    using assms by (rule mset_eq_setD)
  then have "set (first_seen (concat docs')) = set (first_seen (concat docs))"
    by (simp add: set_first_seen)
  then show ?thesis
    by (simp add: set_eq_iff_mset_eq_distinct [symmetric] distinct_first_seen)
qed

lemma token_weight_permuted:
  assumes "mset docs' = mset docs"
  shows "token_weight docs' toks = token_weight docs toks"
proof -
  have "length docs' = length docs"
    using assms by (rule mset_eq_length)
  then show ?thesis
    by (simp add: token_weight_def fun_eq_iff document_frequency_mset assms)
qed

lemma raw_vector_fit:
  assumes "Vectorizer_fit stop lines = Inr M"
  shows "raw_vector M toks =
           map (token_weight (map (tokenize stop) lines) toks) (vocabulary M)"
proof -
  let ?docs = "map (tokenize stop) lines"
  let ?vocab = "first_seen (concat ?docs)"
  from assms have M: "M = \<lparr>vocabulary = ?vocab,
      document_frequencies =
        (\<lambda>i. if i < length ?vocab then document_frequency ?docs (?vocab ! i) else 0),
      corpus_size = length lines\<rparr>"
    by (simp add: Vectorizer_fit_def Let_def split: if_splits)
  show ?thesis
    by (rule nth_equalityI)
      (simp_all add: M raw_vector_def weight_def idf_def term_frequency_def token_weight_def)
qed

lemma vocabulary_fit:
  "Vectorizer_fit stop lines = Inr M \<Longrightarrow>
   vocabulary M = first_seen (concat (map (tokenize stop) lines))"
  by (auto simp: Vectorizer_fit_def Let_def split: if_splits)

lemma normalize_map:
  "normalize (map g xs) =
     map (\<lambda>x. if (\<forall>y\<in>set xs. g y = 0) then 0
               else g x / sqrt (\<Sum>y\<in>#mset xs. (g y)\<^sup>2)) xs"
proof -
  have s: "(\<Sum>x\<leftarrow>xs. (g x)\<^sup>2) = (\<Sum>y\<in>#mset xs. (g y)\<^sup>2)"
    by (induction xs) simp_all
  show ?thesis
    by (simp add: normalize_def euclidean_norm_def s list_all_iff comp_def)
qed

lemma Vectorizer_fit_permuted:
  assumes "mset lines' = mset lines"
  shows "(Vectorizer_fit stop lines' = Inl e) = (Vectorizer_fit stop lines = Inl e)"
proof -
  have "mset (map (tokenize stop) lines') = mset (map (tokenize stop) lines)"
    using assms by simp
  then have "mset (first_seen (concat (map (tokenize stop) lines'))) =
             mset (first_seen (concat (map (tokenize stop) lines)))"
    by (rule first_seen_permuted)
  then have "first_seen (concat (map (tokenize stop) lines')) = [] \<longleftrightarrow>
             first_seen (concat (map (tokenize stop) lines)) = []"
    by (metis mset_zero_iff)
  then show ?thesis
    by (simp add: Vectorizer_fit_def Let_def)
qed

lemma feature_vector_permuted:
  assumes "mset lines' = mset lines"
    and "Vectorizer_fit stop lines = Inr M"
    and "Vectorizer_fit stop lines' = Inr M'"
  shows "mset (zip (vocabulary M') (feature_vector M' stop line)) =
         mset (zip (vocabulary M) (feature_vector M stop line))"
proof -
  let ?docs = "map (tokenize stop) lines" and ?docs' = "map (tokenize stop) lines'"
  let ?g = "token_weight ?docs (tokenize stop line)"
  have d: "mset ?docs' = mset ?docs"
    using assms(1) by simp
  have g: "token_weight ?docs' (tokenize stop line) = ?g"
    by (rule token_weight_permuted [OF d])
  have v: "mset (vocabulary M') = mset (vocabulary M)"
    using first_seen_permuted [OF d] assms(2,3) by (simp add: vocabulary_fit)
  then have sv: "set (vocabulary M') = set (vocabulary M)"
    by (rule mset_eq_setD)
  define n where "n = (\<lambda>t. if (\<forall>y\<in>set (vocabulary M). ?g y = 0) then 0
      else ?g t / sqrt (\<Sum>y\<in>#mset (vocabulary M). (?g y)\<^sup>2))"
  have f: "feature_vector M stop line = map n (vocabulary M)"
    by (simp add: feature_vector_def raw_vector_fit [OF assms(2)] normalize_map n_def)
  have f': "feature_vector M' stop line = map n (vocabulary M')"
    by (simp add: feature_vector_def raw_vector_fit [OF assms(3)] normalize_map n_def g v sv)
  have z: "zip xs (map n xs) = map (\<lambda>t. (t, n t)) xs" for xs
    by (induction xs) simp_all
  show ?thesis
    by (simp add: f f' z v)
qed

end
